theory Spec2Isabelle
  imports Complex_Main "HOL-Library.AList" "HOL-Library.Sublist"
begin

section \<open>Values and exceptions of the JavaScript runtime\<close>

text \<open>
  The repository is a React front end in TypeScript:
  \<^item> \<^verbatim>\<open>src/services/geminiService.ts\<close> holds \<^verbatim>\<open>generateScriptBundle\<close>, the one call to
    the generative API and the validation of its answer;
  \<^item> \<^verbatim>\<open>src/utils/zipUtils.ts\<close> holds \<^verbatim>\<open>createAndDownloadZip\<close> and, after it, the
    application component with \<^verbatim>\<open>buildFileTree\<close> and \<^verbatim>\<open>handleSubmit\<close>.

  TypeScript's types are erased at run time, and \<^verbatim>\<open>JSON.parse(...) as { files: GeneratedFile[] }\<close>
  checks nothing, so what the API returns is modelled as an untyped JSON value. Numbers
  are the finite doubles, which are rationals; only their truthiness is ever read.
\<close>

datatype json =
    JNull
  | JBool bool
  | JNumber rat
  | JString string
  | JArray "json list"
  | JObject "(string \<times> json) list"

text \<open>
  A thrown value. \<^verbatim>\<open>Error\<close> is what the repository throws itself; \<^verbatim>\<open>TypeError\<close>,
  \<^verbatim>\<open>RangeError\<close> and \<^verbatim>\<open>SyntaxError\<close> are raised by the engine (their message is the
  engine's wording, V8's here) and are instances of \<^verbatim>\<open>Error\<close> too; \<^verbatim>\<open>NonError\<close> is any
  other thrown value, which a rejected API promise may carry.
\<close>

datatype exn =
    Error string
  | TypeError string
  | RangeError string
  | SyntaxError string
  | NonError string

fun instanceof_Error :: "exn \<Rightarrow> bool" where
  "instanceof_Error (NonError _) = False"
| "instanceof_Error _ = True"

fun message :: "exn \<Rightarrow> string" where
  "message (Error m) = m"
| "message (TypeError m) = m"
| "message (RangeError m) = m"
| "message (SyntaxError m) = m"
| "message (NonError m) = m"

text \<open>JavaScript truthiness, as \<^verbatim>\<open>!x\<close> reads it.\<close>

fun truthy :: "json \<Rightarrow> bool" where
  "truthy JNull = False"
| "truthy (JBool b) = b"
| "truthy (JNumber n) = (n \<noteq> 0)"
| "truthy (JString s) = (s \<noteq> [])"
| "truthy (JArray _) = True"
| "truthy (JObject _) = True"

fun Array_isArray :: "json \<Rightarrow> bool" where
  "Array_isArray (JArray _) = True"
| "Array_isArray _ = False"

definition quoted :: "string \<Rightarrow> string" where
  "quoted s = [CHR 0x27] @ s @ [CHR 0x27]"

text \<open>
  Reading a property of a parsed value: \<^verbatim>\<open>null.files\<close> throws, an object answers with its
  own property, and every other value (a number, a string, a boolean, an array) has no
  property called \<^verbatim>\<open>files\<close>, so the read gives \<^verbatim>\<open>undefined\<close> (\<open>None\<close>).
\<close>

fun get_property :: "json \<Rightarrow> string \<Rightarrow> exn + json option" where
  "get_property JNull k =
     Inl (TypeError (''Cannot read properties of null (reading '' @ quoted k @ '')''))"
| "get_property (JObject props) k = Inr (map_of props k)"
| "get_property _ k = Inr None"

text \<open>
  A \<open>char\<close> stands for a UTF-16 code unit below 256, so a \<open>string\<close> is a JavaScript string
  of such code units. \<^verbatim>\<open>String.prototype.trim\<close> strips white space and line terminators;
  below 256 these are tab, line feed, vertical tab, form feed, carriage return, space and
  the no-break space U+00A0.
\<close>

definition is_white_space :: "char \<Rightarrow> bool" where
  "is_white_space c =
     (c \<in> set [CHR 0x09, CHR 0x0A, CHR 0x0B, CHR 0x0C, CHR 0x0D, CHR 0x20, CHR 0xA0])"

definition trim :: "string \<Rightarrow> string" where
  "trim s = rev (dropWhile is_white_space (rev (dropWhile is_white_space s)))"

section \<open>The API call: \<^verbatim>\<open>generateScriptBundle\<close>\<close>

subsection \<open>The request\<close>

text \<open>The response schema of lines 8 to 31, with the members of the SDK's \<^verbatim>\<open>Type\<close> it uses.\<close>

datatype schema_type = OBJECT | ARRAY | STRING

datatype schema =
  Schema (schema_type: schema_type) (description: "string option")
    (properties: "(string \<times> schema) list") (items: "schema option")
    (required: "string list")

definition schema :: schema where
  "schema =
     Schema OBJECT None
       [(''files'',
         Schema ARRAY
           (Some ''The complete and updated array of all file objects for the project. If modifying, return all files, not just the changed ones.'')
           []
           (Some (Schema OBJECT None
              [(''name'',
                Schema STRING
                  (Some ''The full file path, including any subdirectories (e.g., 'src/index.js', 'package.json').'')
                  [] None []),
               (''content'',
                Schema STRING
                  (Some ''The complete code or text content of the file.'')
                  [] None [])]
              None
              [''name'', ''content'']))
           [])]
       None
       [''files'']"

definition model :: string where
  "model = ''gemini-2.5-flash''"

text \<open>A template literal that spans several lines holds a line feed between its lines.\<close>

fun template_lines :: "string list \<Rightarrow> string" where
  "template_lines [] = []"
| "template_lines [l] = l"
| "template_lines (l # ls) = l @ CHR 0x0A # template_lines ls"

definition systemInstruction :: string where
  \<open>systemInstruction = template_lines [
     ''You are a Staff-level Engineering Co-pilot, a world-class expert in software architecture, design patterns, and code generation. Your primary goal is to generate and iteratively refine complete, production-grade project scaffolds that are scalable, maintainable, and robust.'',
     '''',
     ''**ARCHITECTURAL PHILOSOPHY (NEW & CRITICAL):**'',
     '''',
     ''1.  **Modularity First:** For any non-trivial request, you MUST break the application into logical modules and components. Do not put all logic in a single file. For a web server, this means separate files for routes, controllers, services, and configuration. For a bot, separate command handlers from the main client logic.'',
     ''2.  **Scalability:** Think ahead. Assume the user's project will grow. Use environment variables for configuration from the start ('.env.example'). Structure the code so that adding new features (e.g., new API endpoints, new bot commands) is intuitive and requires minimal refactoring.'',
     ''3.  **Maintainability:** Generate clean, readable, and well-documented code. Use clear variable names and add comments for complex logic. The generated 'README.md' must be comprehensive.'',
     '''',
     ''**CORE DIRECTIVES:**'',
     '''',
     ''1.  **Iterative Development:** You will receive the current set of project files and a new prompt. Your task is to MODIFY the existing files or ADD new ones to meet the new request. Always return the COMPLETE, updated project structure.'',
     ''2.  **Superior Dependency Selection:** Act as if you have real-time access to NPM, GitHub, and other package repositories. You MUST select modern, robust, and **highly compatible** dependencies. Prioritize mainstream libraries with strong community support. For example, for a Node.js web server, prefer Express or Fastify. For a Discord bot, use discord.js. This is your most important task.'',
     ''3.  **Modern Standards:**'',
     ''    *   For JavaScript/TypeScript, you MUST use the specified Module System. Default to **ES Modules (ESM)** if not specified. This means using '"type": "module"' in 'package.json' and 'import/export' syntax.'',
     ''    *   Code must be clean, executable, and production-ready. **NO placeholder logic, TODOs, or commented-out code blocks.**'',
     ''4.  **Image-Based Debugging:** If the user provides an image, it is almost certainly a **screenshot of an error**.'',
     ''    *   Analyze the error message in the image (stack trace, compiler error, etc.).'',
     ''    *   Cross-reference the error with the relevant code in the provided 'existingFiles'.'',
     ''    *   Deduce the root cause and FIX the code directly. Your response MUST be the updated set of files with the fix applied.'',
     ''5.  **Full Database Integration:** If a database is requested, you must fully integrate it: include the correct driver, generate configuration files that use environment variables, provide a complete '.env.example', and include clear example connection and query logic in the main script.'',
     ''6.  **Mandatory Files (for Node.js):**'',
     ''    *   **'package.json'**: Must be valid JSON with name, version, type, main, scripts, and all necessary dependencies.'',
     ''    *   **Main script (e.g., 'src/index.js')**: The entry point.'',
     ''    *   **'README.md'**: Clear, step-by-step setup and run instructions.'',
     ''    *   **'.gitignore'**: Standard ignores ('node_modules', '.env', etc.).'',
     '''',
     ''**INPUT FORMAT:**'',
     '''',
     ''You will receive a JSON object containing 'existingFiles' and the user's 'prompt'.'',
     '''',
     ''**YOUR RESPONSE MUST BE a JSON object matching the required schema, containing the full, updated list of project files.**'']\<close>

datatype part =
    Text_part string
  | InlineData_part (mimeType: string) (data: string)

record generation_config =
  config_systemInstruction :: string
  responseMimeType :: string
  responseSchema :: schema
  temperature :: rat

datatype api_request =
  Request (request_model: string) (request_parts: "part list") (request_config: generation_config)

text \<open>
  What the awaited \<^verbatim>\<open>ai.models.generateContent\<close> does: the promise rejects with a thrown
  value, or resolves to a response whose \<^verbatim>\<open>text\<close> is a string, or \<^verbatim>\<open>undefined\<close> when the
  response holds no text part.
\<close>

datatype api_outcome =
    Rejects exn
  | Responds "string option"

text \<open>
  The SDK and the built-ins \<^verbatim>\<open>JSON.parse\<close> and \<^verbatim>\<open>JSON.stringify\<close> are not part of the
  repository: the model takes them as parameters. \<open>JSON_parse\<close> answers \<open>None\<close> where the
  built-in throws a \<^verbatim>\<open>SyntaxError\<close>.
\<close>

record js_env =
  generateContent :: "api_request \<Rightarrow> api_outcome"
  JSON_parse :: "string \<Rightarrow> json option"
  JSON_stringify :: "json \<Rightarrow> string"

datatype event =
    Api_call api_request
  | Console_error "string list"

text \<open>Lines 66 to 93: the payload, the parts and the configuration of the call.\<close>

definition inputPayload :: "string \<Rightarrow> json list \<Rightarrow> json" where
  "inputPayload prompt existingFiles =
     JObject [(''prompt'', JString prompt), (''existingFiles'', JArray existingFiles)]"

definition request_contents :: "(json \<Rightarrow> string) \<Rightarrow> string \<Rightarrow> json list \<Rightarrow> string option \<Rightarrow> part list" where
  "request_contents stringify prompt existingFiles imageBase64 =
     [Text_part
        (''Here is the current state and the user's request. Your task is to return the new, complete state of the project files based on your core directives.''
         @ [CHR 0x0A, CHR 0x0A] @ stringify (inputPayload prompt existingFiles))]
     @ (case imageBase64 of
          None \<Rightarrow> []
        | Some b \<Rightarrow> if b \<noteq> [] then [InlineData_part ''image/png'' b] else [])"

definition build_request :: "(json \<Rightarrow> string) \<Rightarrow> string \<Rightarrow> json list \<Rightarrow> string option \<Rightarrow> api_request" where
  "build_request stringify prompt existingFiles imageBase64 =
     Request model (request_contents stringify prompt existingFiles imageBase64)
       \<lparr>config_systemInstruction = systemInstruction,
        responseMimeType = ''application/json'',
        responseSchema = schema,
        temperature = 3 / 10\<rparr>"

subsection \<open>Reading the response\<close>

text \<open>
  The body of the \<^verbatim>\<open>try\<close> of lines 100 to 105. Its own \<^verbatim>\<open>throw\<close> (line 103) is inside the
  \<^verbatim>\<open>try\<close>, as are the \<^verbatim>\<open>SyntaxError\<close> of \<^verbatim>\<open>JSON.parse\<close> and the \<^verbatim>\<open>TypeError\<close> of reading
  \<^verbatim>\<open>files\<close> of \<^verbatim>\<open>null\<close>.
\<close>

definition parse_files :: "(string \<Rightarrow> json option) \<Rightarrow> string \<Rightarrow> exn + json list" where
  "parse_files parse jsonString =
     (case parse jsonString of
        None \<Rightarrow> Inl (SyntaxError ''Unexpected token in JSON'')
      | Some parsed \<Rightarrow>
          (case get_property parsed ''files'' of
             Inl e \<Rightarrow> Inl e
           | Inr None \<Rightarrow> Inl (Error ''API did not return the expected file structure.'')
           | Inr (Some files) \<Rightarrow>
               if \<not> truthy files \<or> \<not> Array_isArray files
               then Inl (Error ''API did not return the expected file structure.'')
               else (case files of JArray entries \<Rightarrow> Inr entries | _ \<Rightarrow> Inr [])))"

text \<open>
  Lines 95 to 109, after the response has arrived. The \<^verbatim>\<open>catch\<close> logs and throws a new
  \<^verbatim>\<open>Error\<close> whatever was caught.
\<close>

definition read_response :: "(string \<Rightarrow> json option) \<Rightarrow> string option \<Rightarrow> event list \<times> (exn + json list)" where
  "read_response parse response_text =
     (case response_text of
        None \<Rightarrow> ([], Inl (TypeError ''Cannot read properties of undefined (reading 'trim')''))
      | Some t \<Rightarrow>
          (let jsonString = trim t in
           if jsonString = []
           then ([], Inl (Error ''API returned an empty response. Please try rephrasing your request.''))
           else (case parse_files parse jsonString of
                   Inr files \<Rightarrow> ([], Inr files)
                 | Inl e \<Rightarrow>
                     ([Console_error [''Failed to parse JSON response:'', jsonString]],
                      Inl (Error ''The API returned an invalid format. This might be due to a complex or unsupported request.'')))))"

text \<open>
  The whole function: the events it causes, in order, and how its promise settles
  (\<open>Inl\<close> a rejection, \<open>Inr\<close> the files it resolves to). A rejected API promise is not
  caught: the \<^verbatim>\<open>await\<close> stands outside the \<^verbatim>\<open>try\<close>.
\<close>

definition generateScriptBundle ::
  "js_env \<Rightarrow> string \<Rightarrow> json list \<Rightarrow> string option \<Rightarrow> event list \<times> (exn + json list)" where
  "generateScriptBundle env prompt existingFiles imageBase64 =
     (let request = build_request (JSON_stringify env) prompt existingFiles imageBase64 in
      case generateContent env request of
        Rejects e \<Rightarrow> ([Api_call request], Inl e)
      | Responds response_text \<Rightarrow>
          (let (log, settled) = read_response (JSON_parse env) response_text
           in (Api_call request # log, settled)))"

fun api_calls :: "event list \<Rightarrow> api_request list" where
  "api_calls [] = []"
| "api_calls (Api_call r # es) = r # api_calls es"
| "api_calls (Console_error _ # es) = api_calls es"

section \<open>The archive: \<^verbatim>\<open>createAndDownloadZip\<close>\<close>

text \<open>
  Modelled from the spec: the declaration of \<^verbatim>\<open>GeneratedFile\<close> (\<^verbatim>\<open>../types\<close>) is not among the
  sources; the spec gives it as \<^verbatim>\<open>{ name: path string, content: string }\<close>.
\<close>

record GeneratedFile =
  name :: string
  content :: string

text \<open>
  JSZip is a library outside the repository. Its object is modelled by the entries it
  holds, keyed by their name, in the order of their creation: \<^verbatim>\<open>zip.file(name, content)\<close>
  stores a file entry under \<open>name\<close>, in the place of an entry of that name when there is
  one, after the library has added a folder entry for each folder on the way to \<open>name\<close>
  that has no entry yet. Which folders these are belongs to the library and its options
  (none with \<^verbatim>\<open>createFolders\<close> off): it is the parameter \<open>folders\<close>. The bytes of the
  archive are not modelled: the archive holds the entries of the zip it is generated from.
\<close>

datatype zip_entry =
    File_entry string
  | Folder_entry

type_synonym zip = "(string \<times> zip_entry) list"

definition folderAdd :: "zip \<Rightarrow> string \<Rightarrow> zip" where
  "folderAdd z k = (case map_of z k of None \<Rightarrow> z @ [(k, Folder_entry)] | Some entry \<Rightarrow> z)"

definition zip_file :: "(string \<Rightarrow> string list) \<Rightarrow> zip \<Rightarrow> string \<Rightarrow> string \<Rightarrow> zip" where
  "zip_file folders z n c = AList.update n (File_entry c) (foldl folderAdd z (folders n))"

text \<open>
  The statements of the \<^verbatim>\<open>try\<close> block (lines 17 to 28). Each may throw; the environment
  says which: \<open>throws s = Some e\<close> when performing \<open>s\<close> throws \<open>e\<close> (for
  \<^verbatim>\<open>generateAsync\<close>: its promise rejects with \<open>e\<close>).
\<close>

datatype step =
    GenerateAsync zip
  | CreateElement_a
  | CreateObjectURL
  | Set_download string
  | AppendChild
  | Click
  | RemoveChild
  | RevokeObjectURL

fun run_steps :: "(step \<Rightarrow> exn option) \<Rightarrow> step list \<Rightarrow> step list \<times> exn option" where
  "run_steps throws [] = ([], None)"
| "run_steps throws (s # ss) =
     (case throws s of
        Some e \<Rightarrow> ([], Some e)
      | None \<Rightarrow> (let (performed, thrown) = run_steps throws ss in (s # performed, thrown)))"

record zip_run =
  file_calls :: "(string \<times> string) list"
  zipped :: zip
  performed :: "step list"
  logged :: "exn option"
  settled :: "exn + unit"

definition try_steps :: "zip \<Rightarrow> string \<Rightarrow> step list" where
  "try_steps z zipName =
     [GenerateAsync z, CreateElement_a, CreateObjectURL, Set_download zipName,
      AppendChild, Click, RemoveChild, RevokeObjectURL]"

text \<open>
  The callback of the \<^verbatim>\<open>forEach\<close> (lines 12 to 14) makes one call of \<^verbatim>\<open>zip.file\<close>, which with
  a name and a content that are strings is taken not to throw. \<open>zip_files\<close> runs it over
  the files from a new zip and gives the zip it leaves, with the calls it made in order.
\<close>

definition add_file ::
  "(string \<Rightarrow> string list) \<Rightarrow> zip \<times> (string \<times> string) list \<Rightarrow> GeneratedFile
     \<Rightarrow> zip \<times> (string \<times> string) list" where
  "add_file folders state file =
     (zip_file folders (fst state) (name file) (content file),
      snd state @ [(name file, content file)])"

definition zip_files ::
  "(string \<Rightarrow> string list) \<Rightarrow> GeneratedFile list \<Rightarrow> zip \<times> (string \<times> string) list" where
  "zip_files folders files = foldl (add_file folders) ([], []) files"

text \<open>
  The \<^verbatim>\<open>forEach\<close> stands before the \<^verbatim>\<open>try\<close>. The \<^verbatim>\<open>catch\<close> logs the error with
  \<^verbatim>\<open>console.error\<close> and returns, so the promise of the \<^verbatim>\<open>async\<close> function resolves on both
  paths. The result keeps the calls of \<^verbatim>\<open>zip.file\<close> (\<open>file_calls\<close>), the zip they leave
  (\<open>zipped\<close>), the statements of the \<^verbatim>\<open>try\<close> that were performed, what the \<^verbatim>\<open>catch\<close> logged
  and how the promise settled.
\<close>

definition createAndDownloadZip ::
  "(string \<Rightarrow> string list) \<Rightarrow> (step \<Rightarrow> exn option) \<Rightarrow> GeneratedFile list \<Rightarrow> string \<Rightarrow> zip_run" where
  "createAndDownloadZip folders throws files zipName =
     (let (zip, calls) = zip_files folders files;
          (done, thrown) = run_steps throws (try_steps zip zipName)
      in case thrown of
           None \<Rightarrow>
             \<lparr>file_calls = calls, zipped = zip, performed = done, logged = None,
              settled = Inr ()\<rparr>
         | Some error \<Rightarrow>
             \<lparr>file_calls = calls, zipped = zip, performed = done, logged = Some error,
              settled = Inr ()\<rparr>)"

section \<open>The file tree: \<^verbatim>\<open>buildFileTree\<close>\<close>

subsection \<open>Objects and arrays used as dictionaries\<close>

text \<open>
  \<^verbatim>\<open>buildFileTree\<close> keeps its nodes as properties: of the plain object \<^verbatim>\<open>root\<close> at the top,
  and below a folder of the \<^emph>\<open>array\<close> that the folder's \<^verbatim>\<open>children\<close> field is created as
  (\<^verbatim>\<open>children: []\<close>, line 65): \<^verbatim>\<open>currentLevel = folderNode.children\<close> (line 69) makes the next
  \<^verbatim>\<open>currentLevel[part] = ...\<close> an assignment to a property of that array. A level is
  therefore modelled by its own properties, keyed by strings, in the order of their
  creation; an assignment to an existing key keeps its place (\<open>AList.update\<close>).

  The declared type is \<^verbatim>\<open>children: FileTreeNode[]\<close>. What an array shows as its elements
  (to \<^verbatim>\<open>length\<close>, to \<^verbatim>\<open>map\<close>, to the renderer's \<^verbatim>\<open>node.children.map\<close> of line 315) are only
  the properties whose key is an array index, \<open>array_elements\<close> below.
\<close>

datatype FileTreeNode =
    File_node (node_name: string) (path: string)
  | Folder_node (node_name: string) (children: "(string \<times> FileTreeNode) list")

type_synonym level = "(string \<times> FileTreeNode) list"

fun is_folder :: "FileTreeNode \<Rightarrow> bool" where
  "is_folder (Folder_node _ _) = True"
| "is_folder (File_node _ _) = False"

text \<open>
  An array index is the canonical decimal numeral of a number below \<open>2^32 - 1\<close>:
  digits only, and no leading zero unless it is \<^verbatim>\<open>"0"\<close> itself.
\<close>

definition is_digit :: "char \<Rightarrow> bool" where
  "is_digit c = (48 \<le> (of_char c :: nat) \<and> (of_char c :: nat) \<le> 57)"

definition digits_value :: "string \<Rightarrow> nat" where
  "digits_value k = foldl (\<lambda>n c. 10 * n + (of_char c - 48)) 0 k"

definition array_index :: "string \<Rightarrow> nat option" where
  "array_index k =
     (if k \<noteq> [] \<and> list_all is_digit k \<and> (hd k \<noteq> CHR ''0'' \<or> k = ''0'')
         \<and> digits_value k < 2 ^ 32 - 1
      then Some (digits_value k) else None)"

definition indexed :: "level \<Rightarrow> (nat \<times> FileTreeNode) list" where
  "indexed lvl =
     sort_key fst (List.map_filter (\<lambda>(k, v). map_option (\<lambda>i. (i, v)) (array_index k)) lvl)"

definition array_elements :: "level \<Rightarrow> FileTreeNode list" where
  "array_elements lvl = map snd (indexed lvl)"

text \<open>
  \<^verbatim>\<open>Object.values\<close> lists the values of the array-index keys first, in ascending order,
  then those of the other keys in the order of their creation.
\<close>

definition Object_values :: "level \<Rightarrow> FileTreeNode list" where
  "Object_values lvl =
     map snd (indexed lvl) @ map snd (filter (\<lambda>(k, v). array_index k = None) lvl)"

text \<open>
  \<^verbatim>\<open>Array.prototype.sort\<close> with a comparison function: the sort is stable, and for a
  comparison that is a consistent ordering every stable sort gives the result of this
  insertion sort. \<^verbatim>\<open>localeCompare\<close> depends on the locale of the browser: it is a
  parameter.
\<close>

fun insert_by :: "('a \<Rightarrow> 'a \<Rightarrow> int) \<Rightarrow> 'a \<Rightarrow> 'a list \<Rightarrow> 'a list" where
  "insert_by c x [] = [x]"
| "insert_by c x (y # ys) = (if c x y > 0 then y # insert_by c x ys else x # y # ys)"

definition sort_by :: "('a \<Rightarrow> 'a \<Rightarrow> int) \<Rightarrow> 'a list \<Rightarrow> 'a list" where
  "sort_by c xs = foldr (insert_by c) xs []"

definition compare_nodes :: "(string \<Rightarrow> string \<Rightarrow> int) \<Rightarrow> FileTreeNode \<Rightarrow> FileTreeNode \<Rightarrow> int" where
  "compare_nodes localeCompare a b =
     (if is_folder a \<and> \<not> is_folder b then - 1
      else if \<not> is_folder a \<and> is_folder b then 1
      else localeCompare (node_name a) (node_name b))"

definition treeToArray :: "(string \<Rightarrow> string \<Rightarrow> int) \<Rightarrow> level \<Rightarrow> FileTreeNode list" where
  "treeToArray localeCompare node = sort_by (compare_nodes localeCompare) (Object_values node)"

subsection \<open>Placing one file\<close>

text \<open>\<^verbatim>\<open>String.prototype.split\<close> with a one-character separator: never the empty list.\<close>

fun split :: "char \<Rightarrow> string \<Rightarrow> string list" where
  "split sep [] = [[]]"
| "split sep (c # cs) =
     (if c = sep then [] # split sep cs
      else (case split sep cs of
              p # ps \<Rightarrow> (c # p) # ps
            | [] \<Rightarrow> [[c]]))"

text \<open>
  How the loop over the files can stop. \<open>Throws\<close> is an exception of the code.
  \<open>Special_key p\<close> marks the limit of the embedding: the path segment \<open>p\<close> is a name that
  an object or an array of the runtime answers to before anything is stored under it
  (\<^verbatim>\<open>__proto__\<close>, an array's \<^verbatim>\<open>length\<close>, an inherited method such as \<^verbatim>\<open>constructor\<close> or
  \<^verbatim>\<open>map\<close>). There a JavaScript object is no dictionary, and the model says nothing about
  what the code does. The set of these names belongs to the runtime: it is the parameter
  \<open>special\<close>, which must hold for each of them.
\<close>

datatype build_stop =
    Throws exn
  | Special_key string

text \<open>
  The inner \<^verbatim>\<open>parts.forEach\<close> (lines 60 to 71) from \<open>currentLevel = lvl\<close> on, over the parts
  that are left; \<open>full\<close> is \<^verbatim>\<open>file.name\<close>. The last part is stored as a file. Another part
  is looked up: when absent a folder is created; a folder found is entered; a file node
  found there is truthy and has no \<^verbatim>\<open>children\<close>, so \<^verbatim>\<open>currentLevel\<close> becomes \<^verbatim>\<open>undefined\<close>
  and the next round throws a \<^verbatim>\<open>TypeError\<close>, on its assignment when it is the last round
  and on its read otherwise. The levels of the tree are shared by nothing else, so the
  assignments in place are rebuilt here along the path.
\<close>

fun place :: "(string \<Rightarrow> bool) \<Rightarrow> string \<Rightarrow> string list \<Rightarrow> level \<Rightarrow> build_stop + level" where
  "place special full [] lvl = Inr lvl"
| "place special full [part] lvl =
     (if special part then Inl (Special_key part)
      else Inr (AList.update part (File_node part full) lvl))"
| "place special full (part # next # rest) lvl =
     (if special part then Inl (Special_key part)
      else (case map_of lvl part of
              None \<Rightarrow>
                (case place special full (next # rest) [] of
                   Inl stop \<Rightarrow> Inl stop
                 | Inr ch \<Rightarrow> Inr (AList.update part (Folder_node part ch) lvl))
            | Some (Folder_node n ch) \<Rightarrow>
                (case place special full (next # rest) ch of
                   Inl stop \<Rightarrow> Inl stop
                 | Inr ch' \<Rightarrow> Inr (AList.update part (Folder_node n ch') lvl))
            | Some (File_node n p) \<Rightarrow>
                Inl (Throws (TypeError
                  (if rest = []
                   then ''Cannot set properties of undefined (setting '' @ quoted next @ '')''
                   else ''Cannot read properties of undefined (reading '' @ quoted next @ '')'')))))"

text \<open>The outer \<^verbatim>\<open>files.forEach\<close> (lines 56 to 72), from a given \<^verbatim>\<open>root\<close> (\<open>root_obj\<close>).\<close>

fun build :: "(string \<Rightarrow> bool) \<Rightarrow> GeneratedFile list \<Rightarrow> level \<Rightarrow> build_stop + level" where
  "build special [] root_obj = Inr root_obj"
| "build special (file # files) root_obj =
     (case place special (name file) (split CHR ''/'' (name file)) root_obj of
        Inl stop \<Rightarrow> Inl stop
      | Inr root_obj' \<Rightarrow> build special files root_obj')"

definition buildFileTree ::
  "(string \<Rightarrow> bool) \<Rightarrow> (string \<Rightarrow> string \<Rightarrow> int) \<Rightarrow> GeneratedFile list \<Rightarrow> build_stop + FileTreeNode list" where
  "buildFileTree special localeCompare files =
     (case build special files [] of
        Inl stop \<Rightarrow> Inl stop
      | Inr root_obj \<Rightarrow> Inr (treeToArray localeCompare root_obj))"

section \<open>The application state and \<^verbatim>\<open>handleSubmit\<close>\<close>

text \<open>
  The \<^verbatim>\<open>useState\<close> variables of the component (lines 98 to 111). The files of a chat
  message are the run-time values a response brought, hence JSON values.
\<close>

record image =
  file_name :: string
  preview :: string
  base64 :: string

datatype message_type = User | Ai | System

record chat_message =
  msg_type :: message_type
  msg_content :: string
  msg_files :: "json list option"

record app_state =
  prompt :: string
  language :: string
  platform :: string
  moduleSystem :: string
  database :: string
  image :: "image option"
  chatHistory :: "chat_message list"
  isFirstRequest :: bool
  isLoading :: bool
  error :: string
  viewingFile :: "json option"

definition initial_state :: app_state where
  "initial_state =
     \<lparr>prompt = [], language = ''javascript'', platform = ''web'', moduleSystem = ''esm'',
      database = ''none'', image = None, chatHistory = [], isFirstRequest = True,
      isLoading = False, error = [], viewingFile = None\<rparr>"

text \<open>Lines 128 to 136.\<close>

definition constructFullPrompt :: "app_state \<Rightarrow> string" where
  "constructFullPrompt s =
     (if isFirstRequest s
      then ''**Initial Project Specifications:**'' @ [CHR 0x0A]
           @ ''- Language: '' @ language s @ [CHR 0x0A]
           @ ''- Platform: '' @ platform s @ [CHR 0x0A]
           @ (if language s \<in> set [''javascript'', ''typescript'']
              then ''- Module System: '' @ moduleSystem s else [])
           @ [CHR 0x0A] @ ''- Database: '' @ database s @ [CHR 0x0A, CHR 0x0A]
           @ ''**User Request:**'' @ [CHR 0x0A] @ prompt s
      else ''**Follow-up Request:**'' @ [CHR 0x0A] @ prompt s)"

text \<open>
  Line 143: \<^verbatim>\<open>[...chatHistory].reverse().find(m => m.files)?.files ?? []\<close>. An array is
  truthy also when empty, so \<^verbatim>\<open>m.files\<close> holds exactly for a message that has the field.
\<close>

definition currentFiles :: "chat_message list \<Rightarrow> json list" where
  "currentFiles history =
     (case find (\<lambda>m. msg_files m \<noteq> None) (rev history) of
        None \<Rightarrow> []
      | Some m \<Rightarrow> (case msg_files m of Some files \<Rightarrow> files | None \<Rightarrow> []))"

text \<open>
  What the spec says is sent again: the files of the most recent response, that is of the
  latest assistant turn, and the empty list when there is none. This definition follows
  the spec's words, to be compared with \<open>currentFiles\<close>.
\<close>

definition latest_response_files :: "chat_message list \<Rightarrow> json list" where
  "latest_response_files history =
     (case find (\<lambda>m. msg_type m = Ai) (rev history) of
        None \<Rightarrow> []
      | Some m \<Rightarrow> (case msg_files m of Some files \<Rightarrow> files | None \<Rightarrow> []))"

text \<open>
  \<^verbatim>\<open>handleSubmit\<close> runs in two parts, with the \<^verbatim>\<open>await\<close> between them. What the second
  part reads from its closure is kept in a \<open>pending\<close> request.
\<close>

record pending =
  currentPrompt :: string
  sent_files :: "json list"
  sent_image :: "string option"
  first_request :: bool

definition image_placeholder :: "image \<Rightarrow> json" where
  "image_placeholder img =
     JObject [(''name'', JString (file_name img)), (''content'', JString ''User uploaded an image.'')]"

text \<open>Lines 139 to 149, and the arguments of the call of line 152.\<close>

definition handleSubmit_begin :: "app_state \<Rightarrow> app_state \<times> pending option" where
  "handleSubmit_begin s =
     (if trim (prompt s) = [] \<or> isLoading s then (s, None)
      else
        (s\<lparr>chatHistory :=
             chatHistory s @
               [\<lparr>msg_type = User, msg_content = prompt s,
                 msg_files = (case image s of
                                Some img \<Rightarrow> Some [image_placeholder img]
                              | None \<Rightarrow> None)\<rparr>],
           isLoading := True, error := [], prompt := [], image := None\<rparr>,
         Some \<lparr>currentPrompt = constructFullPrompt s,
               sent_files = currentFiles (chatHistory s),
               sent_image = map_option base64 (image s),
               first_request = isFirstRequest s\<rparr>))"

text \<open>
  Lines 153 to 161, once the promise of \<^verbatim>\<open>generateScriptBundle\<close> has settled with
  \<open>result\<close>. The updates of the chat history are functional (\<^verbatim>\<open>prev => [...prev, ...]\<close>):
  they apply to the state of that moment.
\<close>

definition handleSubmit_settle :: "pending \<Rightarrow> exn + json list \<Rightarrow> app_state \<Rightarrow> app_state" where
  "handleSubmit_settle p result s =
     (case result of
        Inr files \<Rightarrow>
          s\<lparr>chatHistory :=
              chatHistory s @
                [\<lparr>msg_type = Ai, msg_content = ''Project files are ready or have been updated.'',
                  msg_files = Some files\<rparr>],
            isFirstRequest := (if first_request p then False else isFirstRequest s),
            isLoading := False\<rparr>
      | Inl err \<Rightarrow>
          (let errorMessage =
                 (if instanceof_Error err then message err else ''An unknown error occurred.'')
           in s\<lparr>error := errorMessage,
                chatHistory :=
                  chatHistory s @
                    [\<lparr>msg_type = System, msg_content = ''Error: '' @ errorMessage,
                      msg_files = None\<rparr>],
                isLoading := False\<rparr>))"

text \<open>One submission run to its end against an environment, with nothing in between.\<close>

definition handleSubmit :: "js_env \<Rightarrow> app_state \<Rightarrow> app_state" where
  "handleSubmit env s =
     (case handleSubmit_begin s of
        (s', None) \<Rightarrow> s'
      | (s', Some p) \<Rightarrow>
          handleSubmit_settle p
            (snd (generateScriptBundle env (currentPrompt p) (sent_files p) (sent_image p))) s')"

subsection \<open>The event loop\<close>

text \<open>
  The browser runs one handler at a time, and React renders between two events, so that
  each handler reads the state the one before left. The events are those that change the
  state: a submission, the settling of the request in flight with what the API did, and
  the form's own updates.
\<close>

datatype ui_event =
    Submit
  | Settle api_outcome
  | Set_prompt string
  | Set_language string
  | Set_platform string
  | Set_moduleSystem string
  | Set_database string
  | Set_image "image option"
  | Set_viewingFile "json option"

record system =
  app :: app_state
  in_flight :: "pending list"
  sent :: "api_request list"

definition initial_system :: system where
  "initial_system = \<lparr>app = initial_state, in_flight = [], sent = []\<rparr>"

fun dispatch :: "js_env \<Rightarrow> system \<Rightarrow> ui_event \<Rightarrow> system" where
  "dispatch env sys Submit =
     (case handleSubmit_begin (app sys) of
        (s', None) \<Rightarrow> sys\<lparr>app := s'\<rparr>
      | (s', Some p) \<Rightarrow>
          sys\<lparr>app := s', in_flight := in_flight sys @ [p],
              sent := sent sys @
                [build_request (JSON_stringify env) (currentPrompt p) (sent_files p) (sent_image p)]\<rparr>)"
| "dispatch env sys (Settle outcome) =
     (case in_flight sys of
        [] \<Rightarrow> sys
      | p # rest \<Rightarrow>
          sys\<lparr>app :=
                handleSubmit_settle p
                  (snd (generateScriptBundle (env\<lparr>generateContent := \<lambda>_. outcome\<rparr>)
                          (currentPrompt p) (sent_files p) (sent_image p)))
                  (app sys),
              in_flight := rest\<rparr>)"
| "dispatch env sys (Set_prompt v) = sys\<lparr>app := (app sys)\<lparr>prompt := v\<rparr>\<rparr>"
| "dispatch env sys (Set_language v) = sys\<lparr>app := (app sys)\<lparr>language := v\<rparr>\<rparr>"
| "dispatch env sys (Set_platform v) = sys\<lparr>app := (app sys)\<lparr>platform := v\<rparr>\<rparr>"
| "dispatch env sys (Set_moduleSystem v) = sys\<lparr>app := (app sys)\<lparr>moduleSystem := v\<rparr>\<rparr>"
| "dispatch env sys (Set_database v) = sys\<lparr>app := (app sys)\<lparr>database := v\<rparr>\<rparr>"
| "dispatch env sys (Set_image v) = sys\<lparr>app := (app sys)\<lparr>image := v\<rparr>\<rparr>"
| "dispatch env sys (Set_viewingFile v) = sys\<lparr>app := (app sys)\<lparr>viewingFile := v\<rparr>\<rparr>"

definition run :: "js_env \<Rightarrow> ui_event list \<Rightarrow> system" where
  "run env events = foldl (dispatch env) initial_system events"

section \<open>The spec's words, to compare the code with\<close>



text \<open>
  For the file tree: the parts of a path, and the node that the properties of the levels
  hold under a path (the model's own view of the object tree; what an array shows as its
  elements is \<open>array_elements\<close>).
\<close>

definition path_parts :: "string \<Rightarrow> string list" where
  "path_parts full = split CHR ''/'' full"

fun lookup_path :: "level \<Rightarrow> string list \<Rightarrow> FileTreeNode option" where
  "lookup_path lvl [] = None"
| "lookup_path lvl [p] = map_of lvl p"
| "lookup_path lvl (p # q # ps) =
     (case map_of lvl p of
        Some (Folder_node n ch) \<Rightarrow> lookup_path ch (q # ps)
      | _ \<Rightarrow> None)"

section \<open>A concrete runtime for evaluation\<close>

text \<open>
  The general theorems below hold for every runtime. Where a statement is evaluated at a
  concrete input, the parameters are these: the property names of \<^verbatim>\<open>Object.prototype\<close>
  and \<^verbatim>\<open>Array.prototype\<close> of ECMAScript 2023 with \<^verbatim>\<open>__proto__\<close> and \<^verbatim>\<open>length\<close>, the
  comparison of strings by their character codes in the place of \<^verbatim>\<open>localeCompare\<close>, and a
  \<^verbatim>\<open>JSON.parse\<close> that knows the few response texts used.
\<close>

definition es2023_special :: "string \<Rightarrow> bool" where
  "es2023_special k =
     (k \<in> set [''__proto__'', ''length'', ''constructor'', ''hasOwnProperty'', ''isPrototypeOf'',
        ''propertyIsEnumerable'', ''toLocaleString'', ''toString'', ''valueOf'',
        ''__defineGetter__'', ''__defineSetter__'', ''__lookupGetter__'', ''__lookupSetter__'',
        ''at'', ''concat'', ''copyWithin'', ''entries'', ''every'', ''fill'', ''filter'', ''find'',
        ''findIndex'', ''findLast'', ''findLastIndex'', ''flat'', ''flatMap'', ''forEach'',
        ''includes'', ''indexOf'', ''join'', ''keys'', ''lastIndexOf'', ''map'', ''pop'', ''push'',
        ''reduce'', ''reduceRight'', ''reverse'', ''shift'', ''slice'', ''some'', ''sort'',
        ''splice'', ''toReversed'', ''toSorted'', ''toSpliced'', ''unshift'', ''values'', ''with''])"


definition one_file_response :: string where
  \<open>one_file_response = ''{"files":[{"name":"index.js","content":"ok"}]}''\<close>

definition same_name_response :: string where
  \<open>same_name_response =
     ''{"files":[{"name":"a.js","content":"1"},{"name":"a.js","content":"2"}]}''\<close>

definition odd_entries_response :: string where
  \<open>odd_entries_response = ''{"files":[null,{"name":3},"x"]}''\<close>

definition no_array_response :: string where
  \<open>no_array_response = ''{"files":"none"}''\<close>

definition sample_parse :: "string \<Rightarrow> json option" where
  "sample_parse s =
     map_of
       [(one_file_response,
         JObject [(''files'',
           JArray [JObject [(''name'', JString ''index.js''), (''content'', JString ''ok'')]])]),
        (same_name_response,
         JObject [(''files'',
           JArray [JObject [(''name'', JString ''a.js''), (''content'', JString ''1'')],
                   JObject [(''name'', JString ''a.js''), (''content'', JString ''2'')]])]),
        (odd_entries_response,
         JObject [(''files'', JArray [JNull, JObject [(''name'', JNumber 3)], JString ''x''])]),
        (no_array_response, JObject [(''files'', JString ''none'')]),
        (''{}'', JObject []),
        (''null'', JNull)]
       s"

definition sample_env :: "api_outcome \<Rightarrow> js_env" where
  "sample_env outcome =
     \<lparr>generateContent = (\<lambda>_. outcome), JSON_parse = sample_parse,
      JSON_stringify = (\<lambda>_. ''{}'')\<rparr>"

text \<open>A screenshot attached to a first request, as the form holds it before the submission.\<close>

definition bug_report :: image where
  "bug_report = \<lparr>file_name = ''error.png'', preview = ''blob:preview'', base64 = ''iVBORw0KGgo=''\<rparr>"

definition debugging_state :: app_state where
  "debugging_state = initial_state\<lparr>prompt := ''make a bot'', image := Some bug_report\<rparr>"

text \<open>
  The folder entries that JSZip 3 creates by default (\<^verbatim>\<open>createFolders\<close> is on) for a path
  whose segments are not empty: each proper prefix of the path, from the top, with a
  trailing slash.
\<close>

fun folder_prefixes :: "string \<Rightarrow> string list \<Rightarrow> string list" where
  "folder_prefixes pre [] = []"
| "folder_prefixes pre [s] = []"
| "folder_prefixes pre (s # t # ts) = (pre @ s @ ''/'') # folder_prefixes (pre @ s @ ''/'') (t # ts)"

definition jszip_folders :: "string \<Rightarrow> string list" where
  "jszip_folders full = folder_prefixes [] (split CHR ''/'' full)"


section \<open>Theorems about \<^verbatim>\<open>generateScriptBundle\<close>\<close>

lemma parse_files_array:
  "parse js = Some (JObject props) \<Longrightarrow> map_of props ''files'' = Some (JArray entries) \<Longrightarrow>
   parse_files parse js = Inr entries"
  by (simp add: parse_files_def)

lemma read_response_array:
  "trim t \<noteq> [] \<Longrightarrow> parse (trim t) = Some (JObject props) \<Longrightarrow>
   map_of props ''files'' = Some (JArray entries) \<Longrightarrow>
   read_response parse (Some t) = ([], Inr entries)"
  by (simp add: read_response_def Let_def parse_files_array)





lemma generateScriptBundle_responds:
  "generateContent env (build_request (JSON_stringify env) p fs img) = Responds rtext \<Longrightarrow>
   snd (generateScriptBundle env p fs img) = snd (read_response (JSON_parse env) rtext)"
  by (simp add: generateScriptBundle_def Let_def split: prod.splits)

lemma generateScriptBundle_calls:
  "api_calls (fst (generateScriptBundle env p fs img)) = [build_request (JSON_stringify env) p fs img]"
  by (auto simp add: generateScriptBundle_def read_response_def Let_def
      split: api_outcome.splits option.splits prod.splits sum.splits if_splits)



lemma trim_samples:
  "trim one_file_response = one_file_response"
  "trim same_name_response = same_name_response"
  "trim odd_entries_response = odd_entries_response"
  "trim no_array_response = no_array_response"
  by (simp_all add: trim_def is_white_space_def one_file_response_def same_name_response_def
      odd_entries_response_def no_array_response_def)

lemma samples_not_empty:
  "one_file_response \<noteq> []" "same_name_response \<noteq> []" "odd_entries_response \<noteq> []"
  "no_array_response \<noteq> []"
  by (simp_all add: one_file_response_def same_name_response_def odd_entries_response_def
      no_array_response_def)

lemma sample_parse_one_file:
  "sample_parse one_file_response =
     Some (JObject [(''files'',
       JArray [JObject [(''name'', JString ''index.js''), (''content'', JString ''ok'')]])])"
  by (simp add: sample_parse_def)


lemma sample_parse_odd_entries:
  "sample_parse odd_entries_response =
     Some (JObject [(''files'', JArray [JNull, JObject [(''name'', JNumber 3)], JString ''x''])])"
  by (simp add: sample_parse_def one_file_response_def same_name_response_def
      odd_entries_response_def)


lemma sample_env_simps:
  "generateContent (sample_env outcome) request = outcome"
  "JSON_parse (sample_env outcome) = sample_parse"
  by (simp_all add: sample_env_def)


text \<open>
  Claim C6. Every invocation of \<^verbatim>\<open>generateScriptBundle\<close> makes exactly one call to the API,
  and the configuration of that call carries the fixed response schema: an object with the
  required property \<^verbatim>\<open>files\<close>, an array whose items are objects with the required string
  properties \<^verbatim>\<open>name\<close> and \<^verbatim>\<open>content\<close>.
\<close>
theorem generateScriptBundle_one_call_fixed_schema:
  "api_calls (fst (generateScriptBundle env p fs img)) = [build_request (JSON_stringify env) p fs img]
   \<and> responseSchema (request_config (build_request (JSON_stringify env) p fs img)) = schema
   \<and> schema_type schema = OBJECT \<and> required schema = [''files'']
   \<and> (\<exists>files_schema item_schema.
         properties schema = [(''files'', files_schema)]
         \<and> schema_type files_schema = ARRAY \<and> items files_schema = Some item_schema
         \<and> schema_type item_schema = OBJECT
         \<and> map (\<lambda>(k, s). (k, schema_type s)) (properties item_schema)
             = [(''name'', STRING), (''content'', STRING)]
         \<and> required item_schema = [''name'', ''content''])"
proof -
  have "responseSchema (request_config (build_request (JSON_stringify env) p fs img)) = schema"
    by (simp add: build_request_def)
  moreover have "schema_type schema = OBJECT \<and> required schema = [''files'']"
    by (simp add: schema_def)
  moreover have "\<exists>files_schema item_schema.
         properties schema = [(''files'', files_schema)]
         \<and> schema_type files_schema = ARRAY \<and> items files_schema = Some item_schema
         \<and> schema_type item_schema = OBJECT
         \<and> map (\<lambda>(k, s). (k, schema_type s)) (properties item_schema)
             = [(''name'', STRING), (''content'', STRING)]
         \<and> required item_schema = [''name'', ''content'']"
    by (simp add: schema_def)
  ultimately show ?thesis using generateScriptBundle_calls [of env p fs img] by simp
qed

text \<open>
  Claim C10. \<^verbatim>\<open>generateScriptBundle\<close> checks only that the parsed response has an
  array-valued \<^verbatim>\<open>files\<close> property and returns that array as it is: whatever the entries
  are (\<open>entries\<close> is any list of JSON values, so also \<^verbatim>\<open>null\<close>, objects without \<^verbatim>\<open>name\<close> or
  \<^verbatim>\<open>content\<close>, values that are no objects), they reach the caller unchanged, and nothing
  is logged.
\<close>
theorem generateScriptBundle_returns_entries_unchecked:
  assumes "generateContent env (build_request (JSON_stringify env) p fs img) = Responds (Some t)"
    and "trim t \<noteq> []"
    and "JSON_parse env (trim t) = Some (JObject props)"
    and "map_of props ''files'' = Some (JArray entries)"
  shows "generateScriptBundle env p fs img =
           ([Api_call (build_request (JSON_stringify env) p fs img)], Inr entries)"
  using assms
  by (simp add: generateScriptBundle_def Let_def read_response_array)

text \<open>At a response whose entries are \<^verbatim>\<open>null\<close>, an object without content and a string.\<close>

theorem generateScriptBundle_returns_entries_witness:
  "snd (generateScriptBundle (sample_env (Responds (Some odd_entries_response))) ''make a bot'' [] None)
     = Inr [JNull, JObject [(''name'', JNumber 3)], JString ''x'']"
proof -
  let ?env = "sample_env (Responds (Some odd_entries_response))"
  have n: "trim odd_entries_response \<noteq> []"
    by (simp add: trim_samples samples_not_empty)
  have p: "JSON_parse ?env (trim odd_entries_response) =
      Some (JObject [(''files'', JArray [JNull, JObject [(''name'', JNumber 3)], JString ''x''])])"
    by (simp add: trim_samples sample_env_simps sample_parse_odd_entries)
  have h: "generateContent ?env (build_request (JSON_stringify ?env) ''make a bot'' [] None)
      = Responds (Some odd_entries_response)"
    by (simp add: sample_env_simps)
  have m: "map_of [(''files'', JArray [JNull, JObject [(''name'', JNumber 3)], JString ''x''])] ''files''
      = Some (JArray [JNull, JObject [(''name'', JNumber 3)], JString ''x''])"
    by simp
  from generateScriptBundle_returns_entries_unchecked [OF h n p m] show ?thesis by simp
qed

lemma sample_one_file:
  "snd (generateScriptBundle (sample_env (Responds (Some one_file_response))) p fs img) =
     Inr [JObject [(''name'', JString ''index.js''), (''content'', JString ''ok'')]]"
proof -
  let ?env = "sample_env (Responds (Some one_file_response))"
  have "snd (generateScriptBundle ?env p fs img) =
      snd (read_response (JSON_parse ?env) (Some one_file_response))"
    by (rule generateScriptBundle_responds) (simp add: sample_env_simps)
  also have "read_response (JSON_parse ?env) (Some one_file_response) =
      ([], Inr [JObject [(''name'', JString ''index.js''), (''content'', JString ''ok'')]])"
    by (rule read_response_array [where props =
          "[(''files'',
             JArray [JObject [(''name'', JString ''index.js''), (''content'', JString ''ok'')]])]"])
       (simp_all add: sample_env_simps trim_samples samples_not_empty sample_parse_one_file)
  finally show ?thesis by simp
qed

section \<open>Theorems about \<^verbatim>\<open>createAndDownloadZip\<close>\<close>



lemma createAndDownloadZip_fields:
  "file_calls (createAndDownloadZip folders throws files zipName) = snd (zip_files folders files)"
  "zipped (createAndDownloadZip folders throws files zipName) = fst (zip_files folders files)"
  "settled (createAndDownloadZip folders throws files zipName) = Inr ()"
  "performed (createAndDownloadZip folders throws files zipName) =
     fst (run_steps throws (try_steps (fst (zip_files folders files)) zipName))"
  "logged (createAndDownloadZip folders throws files zipName) =
     snd (run_steps throws (try_steps (fst (zip_files folders files)) zipName))"
  by (simp_all add: createAndDownloadZip_def Let_def split: prod.splits option.splits)


lemma run_steps_none: "run_steps (\<lambda>_. None) steps = (steps, None)"
  by (induction steps) simp_all






















text \<open>
  Claim C9. \<^verbatim>\<open>createAndDownloadZip\<close> never rejects: whatever the files, the name and the
  steps that throw, its promise resolves; when generating the archive throws, nothing of
  the download is performed and the error is only logged.
\<close>

theorem createAndDownloadZip_never_rejects:
  "settled (createAndDownloadZip folders throws files zipName) = Inr ()
   \<and> (throws (GenerateAsync (fst (zip_files folders files))) = Some e \<longrightarrow>
        performed (createAndDownloadZip folders throws files zipName) = []
        \<and> logged (createAndDownloadZip folders throws files zipName) = Some e)"
  by (simp add: createAndDownloadZip_fields try_steps_def)

text \<open>An environment in which \<^verbatim>\<open>generateAsync\<close> rejects.\<close>

theorem createAndDownloadZip_never_rejects_witness:
  "settled (createAndDownloadZip jszip_folders
      (\<lambda>s. case s of GenerateAsync z \<Rightarrow> Some (Error ''out of memory'') | _ \<Rightarrow> None)
      [\<lparr>name = ''a.js'', content = ''1''\<rparr>] ''a.zip'') = Inr ()
   \<and> performed (createAndDownloadZip jszip_folders
      (\<lambda>s. case s of GenerateAsync z \<Rightarrow> Some (Error ''out of memory'') | _ \<Rightarrow> None)
      [\<lparr>name = ''a.js'', content = ''1''\<rparr>] ''a.zip'') = []
   \<and> logged (createAndDownloadZip jszip_folders
      (\<lambda>s. case s of GenerateAsync z \<Rightarrow> Some (Error ''out of memory'') | _ \<Rightarrow> None)
      [\<lparr>name = ''a.js'', content = ''1''\<rparr>] ''a.zip'') = Some (Error ''out of memory'')"
  using createAndDownloadZip_never_rejects
    [of jszip_folders "\<lambda>s. case s of GenerateAsync z \<Rightarrow> Some (Error ''out of memory'') | _ \<Rightarrow> None"
        "[\<lparr>name = ''a.js'', content = ''1''\<rparr>]" "''a.zip''" "Error ''out of memory''"]
  by simp

section \<open>Theorems about \<^verbatim>\<open>handleSubmit\<close>\<close>

lemma handleSubmit_begin_loading:
  "isLoading s \<Longrightarrow> handleSubmit_begin s = (s, None)"
  by (simp add: handleSubmit_begin_def)

lemma handleSubmit_begin_starts:
  "handleSubmit_begin s = (s', Some p) \<Longrightarrow> \<not> isLoading s \<and> isLoading s'"
  by (auto simp add: handleSubmit_begin_def split: if_splits)

lemma handleSubmit_begin_idle:
  "handleSubmit_begin s = (s', None) \<Longrightarrow> s' = s"
  by (auto simp add: handleSubmit_begin_def split: if_splits)

lemma handleSubmit_settle_clears:
  "isLoading (handleSubmit_settle p result s) = False"
  by (cases result) (simp_all add: handleSubmit_settle_def Let_def)

lemma dispatch_keeps_one_in_flight:
  assumes "length (in_flight sys) \<le> 1" and "isLoading (app sys) = (in_flight sys \<noteq> [])"
  shows "length (in_flight (dispatch env sys ev)) \<le> 1
         \<and> isLoading (app (dispatch env sys ev)) = (in_flight (dispatch env sys ev) \<noteq> [])"
proof (cases ev)
  case Submit
  show ?thesis
  proof (cases "handleSubmit_begin (app sys)")
    case (Pair s' request)
    show ?thesis
    proof (cases request)
      case None
      with Pair Submit assms handleSubmit_begin_idle [of "app sys" s'] show ?thesis by simp
    next
      case (Some p)
      with Pair handleSubmit_begin_starts [of "app sys" s' p]
      have "\<not> isLoading (app sys)" and "isLoading s'" by simp_all
      with assms have "in_flight sys = []" by simp
      with Pair Some Submit \<open>isLoading s'\<close> show ?thesis by simp
    qed
  qed
next
  case (Settle outcome)
  show ?thesis
  proof (cases "in_flight sys")
    case Nil
    with Settle assms show ?thesis by simp
  next
    case (Cons p rest)
    with assms have "rest = []" by simp
    with Cons Settle show ?thesis by (simp add: handleSubmit_settle_clears)
  qed
qed (use assms in simp_all)

lemma run_snoc: "run env (events @ [ev]) = dispatch env (run env events) ev"
  by (simp add: run_def)

lemma run_one_in_flight:
  "length (in_flight (run env events)) \<le> 1
   \<and> isLoading (app (run env events)) = (in_flight (run env events) \<noteq> [])"
proof (induction events rule: rev_induct)
  case Nil
  show ?case by (simp add: run_def initial_system_def initial_state_def)
next
  case (snoc ev events)
  then show ?case unfolding run_snoc by (intro dispatch_keeps_one_in_flight) simp_all
qed

text \<open>
  Claim C7. The loading flag prevents duplicate submissions: while a request is in flight
  (\<^verbatim>\<open>isLoading\<close> is true) \<^verbatim>\<open>handleSubmit\<close> leaves the whole state unchanged and starts no
  request; so after any sequence of events at most one request is in flight, and the flag
  is set exactly while one is; and the flag is cleared when the request settles, whether
  it succeeded or failed.
\<close>

theorem loading_flag_prevents_duplicate_submissions:
  "(isLoading (app sys) \<longrightarrow>
      handleSubmit_begin (app sys) = (app sys, None) \<and> dispatch env sys Submit = sys)
   \<and> length (in_flight (run env events)) \<le> 1
   \<and> isLoading (app (run env events)) = (in_flight (run env events) \<noteq> [])
   \<and> \<not> isLoading (handleSubmit_settle p result s)"
  using run_one_in_flight [of env events]
  by (simp add: handleSubmit_begin_loading handleSubmit_settle_clears)

lemma trim_words:
  "trim ''make a bot'' = ''make a bot''" "trim ''add tests'' = ''add tests''"
  by (simp_all add: trim_def is_white_space_def)

lemma loading_run:
  "app (run env [Set_prompt ''make a bot'', Submit, Set_prompt ''add tests'']) =
     initial_state\<lparr>chatHistory := [\<lparr>msg_type = User, msg_content = ''make a bot'', msg_files = None\<rparr>],
       isLoading := True, prompt := ''add tests''\<rparr>"
  by (simp add: run_def initial_system_def initial_state_def handleSubmit_begin_def trim_words)

text \<open>
  A second submission while the first is in flight, with a prompt typed again so that
  only the flag stands in its way.
\<close>

theorem loading_flag_witness:
  "isLoading (app (run (sample_env (Responds None)) [Set_prompt ''make a bot'', Submit, Set_prompt ''add tests'']))
   \<and> trim (prompt (app (run (sample_env (Responds None)) [Set_prompt ''make a bot'', Submit, Set_prompt ''add tests'']))) \<noteq> []
   \<and> dispatch (sample_env (Responds None))
        (run (sample_env (Responds None)) [Set_prompt ''make a bot'', Submit, Set_prompt ''add tests'']) Submit
       = run (sample_env (Responds None)) [Set_prompt ''make a bot'', Submit, Set_prompt ''add tests'']
   \<and> length (in_flight (run (sample_env (Responds None))
        [Set_prompt ''make a bot'', Submit, Set_prompt ''add tests'', Submit])) = 1"
proof -
  let ?env = "sample_env (Responds None)"
  let ?sys = "run ?env [Set_prompt ''make a bot'', Submit, Set_prompt ''add tests'']"
  have l: "isLoading (app ?sys)" by (simp add: loading_run)
  have t: "trim (prompt (app ?sys)) \<noteq> []" by (simp add: loading_run trim_words)
  from l loading_flag_prevents_duplicate_submissions [of ?sys ?env]
  have d: "dispatch ?env ?sys Submit = ?sys" by blast
  have "run ?env ([Set_prompt ''make a bot'', Submit, Set_prompt ''add tests''] @ [Submit]) = ?sys"
    unfolding run_snoc by (rule d)
  then have r: "run ?env [Set_prompt ''make a bot'', Submit, Set_prompt ''add tests'', Submit] = ?sys"
    by simp
  from l loading_flag_prevents_duplicate_submissions [of ?sys ?env "[Set_prompt ''make a bot'', Submit, Set_prompt ''add tests'']"]
  have "length (in_flight ?sys) \<le> 1" and "in_flight ?sys \<noteq> []" by simp_all
  then have "length (in_flight ?sys) = 1" by (cases "in_flight ?sys") simp_all
  with l t d r show ?thesis by simp
qed

lemma failed_image_run:
  "app (run env [Set_prompt ''make a bot'', Set_image (Some bug_report), Submit,
                 Settle (Rejects (Error ''Failed to fetch'')), Set_prompt ''add tests'']) =
     initial_state\<lparr>chatHistory :=
         [\<lparr>msg_type = User, msg_content = ''make a bot'', msg_files = Some [image_placeholder bug_report]\<rparr>,
          \<lparr>msg_type = System, msg_content = ''Error: Failed to fetch'', msg_files = None\<rparr>],
       error := ''Failed to fetch'', prompt := ''add tests''\<rparr>"
  by (simp add: run_def initial_system_def initial_state_def handleSubmit_begin_def trim_words
      handleSubmit_settle_def generateScriptBundle_def Let_def)

text \<open>
  Claim C1 says that a later submission sends again the files of the most recent response
  (\<open>latest_response_files\<close>), and the empty list when there is none. The code takes the
  latest message that has files, whoever sent it. After a first request with a screenshot
  that failed, no response exists, and the next submission sends the screenshot's
  placeholder as the project's files.
\<close>

theorem handleSubmit_resubmits_image_placeholder:
  "sent_files (the (snd (handleSubmit_begin
      (app (run env [Set_prompt ''make a bot'', Set_image (Some bug_report), Submit,
                     Settle (Rejects (Error ''Failed to fetch'')), Set_prompt ''add tests''])))))
     = [JObject [(''name'', JString ''error.png''), (''content'', JString ''User uploaded an image.'')]]
   \<and> latest_response_files
       (chatHistory (app (run env [Set_prompt ''make a bot'', Set_image (Some bug_report), Submit,
                     Settle (Rejects (Error ''Failed to fetch'')), Set_prompt ''add tests''])))
     = []"
  unfolding failed_image_run
  by (simp add: handleSubmit_begin_def initial_state_def trim_words currentFiles_def
      latest_response_files_def image_placeholder_def bug_report_def)

text \<open>The two agree on every history in which only assistant turns carry files.\<close>

lemma currentFiles_without_user_snapshots:
  assumes "\<forall>m \<in> set history. (msg_files m \<noteq> None) = (msg_type m = Ai)"
  shows "currentFiles history = latest_response_files history"
proof -
  have "find (\<lambda>m. msg_files m \<noteq> None) (rev history) = find (\<lambda>m. msg_type m = Ai) (rev history)"
    using assms by (intro find_cong) simp_all
  then show ?thesis by (simp add: currentFiles_def latest_response_files_def)
qed

lemma handleSubmit_history:
  assumes "\<not> isLoading s" and "trim (prompt s) \<noteq> []"
  shows "chatHistory (handleSubmit env s) =
     chatHistory s @
       [\<lparr>msg_type = User, msg_content = prompt s,
         msg_files = (case image s of Some img \<Rightarrow> Some [image_placeholder img] | None \<Rightarrow> None)\<rparr>,
        (case snd (generateScriptBundle env (constructFullPrompt s) (currentFiles (chatHistory s))
                     (map_option base64 (image s))) of
           Inr files \<Rightarrow>
             \<lparr>msg_type = Ai, msg_content = ''Project files are ready or have been updated.'',
              msg_files = Some files\<rparr>
         | Inl err \<Rightarrow>
             \<lparr>msg_type = System,
              msg_content = ''Error: '' @ (if instanceof_Error err then message err
                                           else ''An unknown error occurred.''),
              msg_files = None\<rparr>)]"
  using assms
  by (simp add: handleSubmit_def handleSubmit_begin_def handleSubmit_settle_def Let_def
      split: sum.splits)

text \<open>
  Claim C5, amended. A submission that is accepted appends two turns. The assistant turn
  of a request that succeeded carries exactly the list of files that
  \<^verbatim>\<open>generateScriptBundle\<close> returned for it; the system turn of a request that failed carries
  none. The user turn carries a snapshot only when an image was attached, and it is then
  the one placeholder that names the image, not a set of produced files.
\<close>

theorem handleSubmit_appends_snapshots:
  assumes "\<not> isLoading s" and "trim (prompt s) \<noteq> []"
  shows "\<exists>user_turn reply.
           chatHistory (handleSubmit env s) = chatHistory s @ [user_turn, reply]
           \<and> msg_type user_turn = User
           \<and> msg_files user_turn =
               (case image s of Some img \<Rightarrow> Some [image_placeholder img] | None \<Rightarrow> None)
           \<and> (case snd (generateScriptBundle env (constructFullPrompt s)
                          (currentFiles (chatHistory s)) (map_option base64 (image s))) of
                 Inr files \<Rightarrow> msg_type reply = Ai \<and> msg_files reply = Some files
               | Inl err \<Rightarrow> msg_type reply = System \<and> msg_files reply = None)"
  unfolding handleSubmit_history [OF assms]
  by (simp split: sum.splits)

lemma debugging_state_ready:
  "\<not> isLoading debugging_state" "trim (prompt debugging_state) \<noteq> []"
  "image debugging_state = Some bug_report" "chatHistory debugging_state = []"
  by (simp_all add: debugging_state_def initial_state_def trim_words)

text \<open>
  Claim C5 as stated fails: the user turn of a submission with a screenshot has a
  snapshot, the placeholder, while the files produced at that turn are those of the
  response.
\<close>

theorem user_snapshot_is_not_the_produced_files:
  "map msg_files (chatHistory (handleSubmit (sample_env (Responds (Some one_file_response))) debugging_state))
     = [Some [JObject [(''name'', JString ''error.png''), (''content'', JString ''User uploaded an image.'')]],
        Some [JObject [(''name'', JString ''index.js''), (''content'', JString ''ok'')]]]
   \<and> map msg_type (chatHistory (handleSubmit (sample_env (Responds (Some one_file_response))) debugging_state))
     = [User, Ai]
   \<and> snd (generateScriptBundle (sample_env (Responds (Some one_file_response)))
            (constructFullPrompt debugging_state) (currentFiles (chatHistory debugging_state))
            (map_option base64 (image debugging_state)))
     = Inr [JObject [(''name'', JString ''index.js''), (''content'', JString ''ok'')]]"
  unfolding handleSubmit_history [OF debugging_state_ready(1,2)] sample_one_file
  by (simp add: debugging_state_ready image_placeholder_def bug_report_def)

text \<open>The amended claim at the same submission.\<close>

theorem handleSubmit_appends_snapshots_witness:
  "\<exists>user_turn reply.
      chatHistory (handleSubmit (sample_env (Responds (Some one_file_response))) debugging_state)
        = [user_turn, reply]
      \<and> msg_type user_turn = User
      \<and> msg_files user_turn = Some [image_placeholder bug_report]
      \<and> msg_type reply = Ai
      \<and> msg_files reply = Some [JObject [(''name'', JString ''index.js''), (''content'', JString ''ok'')]]"
  using handleSubmit_appends_snapshots [OF debugging_state_ready(1,2),
      of "sample_env (Responds (Some one_file_response))"]
  unfolding sample_one_file
  by (simp add: debugging_state_ready)

section \<open>Theorems about \<^verbatim>\<open>buildFileTree\<close>\<close>

lemma lookup_path_empty [simp]: "lookup_path [] qs = None"
  by (induction "[] :: level" qs rule: lookup_path.induct) simp_all

lemma split_not_Nil [simp]: "split c s \<noteq> []" "[] \<noteq> split c s"
  by (induction s) (auto split: list.splits)




lemma path_parts_not_Nil [simp]: "path_parts a \<noteq> []"
  by (simp add: path_parts_def)


lemma not_special_src: "\<not> es2023_special ''src''" "\<not> es2023_special ''index.js''"
  by (simp_all add: es2023_special_def)

lemma not_index: "array_index ''src'' = None" "array_index ''index.js'' = None"
  by (simp_all add: array_index_def is_digit_def)

text \<open>
  Claim C2 says that a file whose name has \<open>n\<close> parts is a file node at depth \<open>n\<close> of the
  output tree, reachable through the \<^verbatim>\<open>children\<close> of its folders. For \<^verbatim>\<open>src/index.js\<close> the code
  returns the folder \<^verbatim>\<open>src\<close> whose \<^verbatim>\<open>children\<close> array has the file node as the property
  \<^verbatim>\<open>index.js\<close> and no element: as a value of the declared type \<^verbatim>\<open>FileTreeNode[]\<close> the array is
  empty, and the renderer's \<^verbatim>\<open>node.children.map\<close> shows nothing below the folder.
\<close>

theorem buildFileTree_nested_file_is_no_array_element:
  "buildFileTree es2023_special localeCompare [\<lparr>name = ''src/index.js'', content = ''run()''\<rparr>]
     = Inr [Folder_node ''src'' [(''index.js'', File_node ''index.js'' ''src/index.js'')]]
   \<and> array_elements [(''index.js'', File_node ''index.js'' ''src/index.js'')] = []"
  by (simp add: buildFileTree_def not_special_src treeToArray_def Object_values_def indexed_def
      List.map_filter_def not_index sort_by_def array_elements_def)
















end
